theory Spec2Isabelle
  imports Complex_Main "HOL-Library.Word" "HOL-Library.Signed_Division"
begin

unbundle bit_operations_syntax

section \<open>Errors\<close>

text \<open>
  The functions of \<^verbatim>\<open>dmitigr::math\<close> fail in two ways: they throw
  \<^verbatim>\<open>std::invalid_argument\<close> with a message, or an assertion
  (\<^verbatim>\<open>DMITIGR_ASSERT\<close>) stops the program. Both are values here.
\<close>

datatype error = invalid_argument string | assertion_failure

section \<open>Alignment\<close>

text \<open>
  The template parameter \<^verbatim>\<open>T\<close> of the alignment functions is a signed integer type
  that is not promoted (\<^verbatim>\<open>int\<close>, \<^verbatim>\<open>long\<close>, \<^verbatim>\<open>long long\<close>): a word of
  \<open>LENGTH('a)\<close> bits in two's complement, whose arithmetic wraps around. The test
  \<^verbatim>\<open>value >= 0\<close> is the signed comparison \<open>0 \<le>s val\<close>. Overflow of a signed type
  is undefined in C++; where it happens (\<open>number - 1\<close> at the minimum value) the model
  has the wrap-around of the two's-complement machine, and no claim below rests on it
  but where it says so.
\<close>

definition is_power_of_two :: "'a::len word \<Rightarrow> bool" where
  "is_power_of_two number = ((number AND (number - 1)) = 0)"

text \<open>
  For a signed \<^verbatim>\<open>T\<close> narrower than \<^verbatim>\<open>int\<close> (\<^verbatim>\<open>int8_t\<close>, \<^verbatim>\<open>int16_t\<close>) the operands of
  \<^verbatim>\<open>number - 1\<close> and of \<^verbatim>\<open>&\<close> are promoted to \<^verbatim>\<open>int\<close>, taken to have 32 bits:
  \<^verbatim>\<open>number\<close> is sign-extended and the expression is computed in \<^verbatim>\<open>int\<close>, where nothing
  overflows.
\<close>

definition is_power_of_two_promoted :: "'a::len word \<Rightarrow> bool" where
  "is_power_of_two_promoted number =
     (let n = (scast number :: 32 word) in (n AND (n - 1)) = 0)"

definition padding :: "'a::len word \<Rightarrow> 'a word \<Rightarrow> error + 'a word" where
  "padding val alignment =
     (if \<not> (0 \<le>s val) then
        Inl (invalid_argument ''cannot calculate padding for a negative value'')
      else if \<not> is_power_of_two alignment then
        Inl (invalid_argument ''cannot calculate padding with alignment that is not power of 2'')
      else Inr ((0 - val) AND (alignment - 1)))"

definition aligned :: "'a::len word \<Rightarrow> 'a word \<Rightarrow> error + 'a word" where
  "aligned val alignment =
     (if \<not> (0 \<le>s val) then
        Inl (invalid_argument ''cannot align a negative value'')
      else if \<not> is_power_of_two alignment then
        Inl (invalid_argument ''cannot align a value with alignment that is not power of 2'')
      else Inr ((val + (alignment - 1)) AND - alignment))"

section \<open>Interval\<close>

text \<open>
  The enumerators are capitalised (\<open>open\<close> is a keyword and \<open>closed\<close> a constant of HOL);
  the members \<^verbatim>\<open>type_\<close>, \<^verbatim>\<open>min_\<close> and \<^verbatim>\<open>max_\<close> end in a prime instead of an underscore.
\<close>

datatype Interval_type = Closed | Open | Lopen | Ropen

record 'a Interval =
  type' :: Interval_type
  min' :: 'a
  max' :: 'a

text \<open>
  The default constructor: \<^verbatim>\<open>type_{Type::closed}\<close>, \<^verbatim>\<open>min_{}\<close>, \<^verbatim>\<open>max_{}\<close>. The
  value-initialised \<^verbatim>\<open>T{}\<close> is the parameter \<open>T_init\<close> (zero for the arithmetic types).
\<close>

definition Interval_default :: "'a \<Rightarrow> 'a Interval" where
  "Interval_default T_init = \<lparr>type' = Closed, min' = T_init, max' = T_init\<rparr>"

text \<open>The constructor \<^verbatim>\<open>Interval(T min, T max)\<close>.\<close>

definition Interval_min_max :: "'a::linorder \<Rightarrow> 'a \<Rightarrow> error + 'a Interval" where
  "Interval_min_max mn mx =
     (if \<not> (mn \<le> mx) then Inl (invalid_argument ''interval is invalid (min > max)'')
      else Inr \<lparr>type' = Closed, min' = mn, max' = mx\<rparr>)"

text \<open>The constructor \<^verbatim>\<open>Interval(const Type type, T min, T max)\<close>.\<close>

definition Interval_typed :: "Interval_type \<Rightarrow> 'a::linorder \<Rightarrow> 'a \<Rightarrow> error + 'a Interval" where
  "Interval_typed ty mn mx =
     (let requirement = ((ty = Closed \<and> mn \<le> mx) \<or> (ty \<noteq> Closed \<and> mn < mx))
      in if \<not> requirement then
           Inl (invalid_argument ''interval is invalid (min > max or min >= max)'')
         else Inr \<lparr>type' = ty, min' = mn, max' = mx\<rparr>)"

text \<open>
  The four factories \<^verbatim>\<open>return {Type::closed, std::move(min), std::move(max)};\<close> and
  the like: the returned \<^verbatim>\<open>Interval\<close> is copy-list-initialised from the braced list.
  Overload resolution selects the constructor \<^verbatim>\<open>Interval(const Type, T, T)\<close>, and a
  copy-list-initialisation that selects a constructor declared \<^verbatim>\<open>explicit\<close> is
  ill-formed. The factories are members of a class template, so the header is
  translated, but every program that calls one of them is rejected: the call has no
  result at run time.
\<close>

datatype 'a call = ill_formed | well_formed 'a

definition copy_list_initialization :: "bool \<Rightarrow> 'a \<Rightarrow> 'a call" where
  "copy_list_initialization explicit_constructor r =
     (if explicit_constructor then ill_formed else well_formed r)"

text \<open>\<^verbatim>\<open>explicit Interval(const Type type, T min, T max)\<close>: the constructor is explicit.\<close>

definition Interval_typed_explicit :: bool where
  "Interval_typed_explicit = True"

definition make_closed :: "'a::linorder \<Rightarrow> 'a \<Rightarrow> (error + 'a Interval) call" where
  "make_closed mn mx =
     copy_list_initialization Interval_typed_explicit (Interval_typed Closed mn mx)"

definition make_open :: "'a::linorder \<Rightarrow> 'a \<Rightarrow> (error + 'a Interval) call" where
  "make_open mn mx =
     copy_list_initialization Interval_typed_explicit (Interval_typed Open mn mx)"

definition make_lopen :: "'a::linorder \<Rightarrow> 'a \<Rightarrow> (error + 'a Interval) call" where
  "make_lopen mn mx =
     copy_list_initialization Interval_typed_explicit (Interval_typed Lopen mn mx)"

definition make_ropen :: "'a::linorder \<Rightarrow> 'a \<Rightarrow> (error + 'a Interval) call" where
  "make_ropen mn mx =
     copy_list_initialization Interval_typed_explicit (Interval_typed Ropen mn mx)"

text \<open>
  \<^verbatim>\<open>has\<close>: the \<^verbatim>\<open>switch\<close> returns in each of the four cases of the enumeration, so the
  \<^verbatim>\<open>DMITIGR_ASSERT(false)\<close> after it is never reached.
\<close>

definition has :: "'a::linorder Interval \<Rightarrow> 'a \<Rightarrow> bool" where
  "has i v =
     (case type' i of
        Closed \<Rightarrow> (min' i \<le> v) \<and> (v \<le> max' i)
      | Open \<Rightarrow> (min' i < v) \<and> (v < max' i)
      | Lopen \<Rightarrow> (min' i < v) \<and> (v \<le> max' i)
      | Ropen \<Rightarrow> (min' i \<le> v) \<and> (v < max' i))"

text \<open>
  \<^verbatim>\<open>release\<close> mutates the receiver: the model returns the pair together with the new
  state of the instance, which \<^verbatim>\<open>*this = {}\<close> makes the default-constructed interval.
\<close>

definition release :: "'a \<Rightarrow> 'a Interval \<Rightarrow> ('a \<times> 'a) \<times> 'a Interval" where
  "release T_init i =
     (let result = (min' i, max' i)
      in (result, Interval_default T_init))"

section \<open>Statistic\<close>

subsection \<open>The type \<^verbatim>\<open>double\<close>\<close>

text \<open>
  A \<^verbatim>\<open>double\<close> is a finite number, one of the two infinities or a NaN. The special
  values follow IEEE 754. On finite numbers the arithmetic is exact: rounding, overflow
  to infinity and the sign of zero are not modelled, and every zero divisor is \<open>+0.0\<close>
  (the only divisors of this code are converted unsigned sizes). What is settled below
  about a claim runs through the rules of the special values, and through finite
  arithmetic only where binary64 computes the same: a sum with zero, a quotient by one,
  and whether a difference is zero.
\<close>

datatype double = Finite real | PInf | NInf | NaN

fun dneg :: "double \<Rightarrow> double" where
  "dneg (Finite a) = Finite (- a)"
| "dneg PInf = NInf"
| "dneg NInf = PInf"
| "dneg NaN = NaN"

fun dadd :: "double \<Rightarrow> double \<Rightarrow> double" where
  "dadd NaN y = NaN"
| "dadd x NaN = NaN"
| "dadd (Finite a) (Finite b) = Finite (a + b)"
| "dadd PInf NInf = NaN"
| "dadd NInf PInf = NaN"
| "dadd PInf y = PInf"
| "dadd x PInf = PInf"
| "dadd NInf y = NInf"
| "dadd x NInf = NInf"

definition dsub :: "double \<Rightarrow> double \<Rightarrow> double" where
  "dsub x y = dadd x (dneg y)"

fun dmul :: "double \<Rightarrow> double \<Rightarrow> double" where
  "dmul NaN y = NaN"
| "dmul x NaN = NaN"
| "dmul (Finite a) (Finite b) = Finite (a * b)"
| "dmul (Finite a) y = (if a = 0 then NaN else if 0 < a then y else dneg y)"
| "dmul x (Finite b) = (if b = 0 then NaN else if 0 < b then x else dneg x)"
| "dmul PInf y = y"
| "dmul NInf y = dneg y"

fun ddiv :: "double \<Rightarrow> double \<Rightarrow> double" where
  "ddiv NaN y = NaN"
| "ddiv x NaN = NaN"
| "ddiv (Finite a) (Finite b) =
     (if b = 0 then (if a = 0 then NaN else if 0 < a then PInf else NInf)
      else Finite (a / b))"
| "ddiv (Finite a) y = Finite 0"
| "ddiv x (Finite b) = (if 0 \<le> b then x else dneg x)"
| "ddiv x y = NaN"

text \<open>The comparison \<^verbatim>\<open>x >= y\<close>: false as soon as an operand is a NaN.\<close>

fun dge :: "double \<Rightarrow> double \<Rightarrow> bool" where
  "dge NaN y = False"
| "dge x NaN = False"
| "dge (Finite a) (Finite b) = (b \<le> a)"
| "dge PInf y = True"
| "dge x NInf = True"
| "dge x y = False"

subsection \<open>Sizes\<close>

text \<open>
  \<^verbatim>\<open>data.size()\<close> is a \<^verbatim>\<open>std::size_t\<close>, taken to have 64 bits. In
  \<^verbatim>\<open>data.size() - !general\<close> the \<^verbatim>\<open>int\<close> value of \<^verbatim>\<open>!general\<close> is converted to
  \<^verbatim>\<open>std::size_t\<close> and the subtraction wraps around.
\<close>

definition size_sub :: "nat \<Rightarrow> nat \<Rightarrow> nat" where
  "size_sub n b = (n + 2 ^ 64 - b) mod 2 ^ 64"

definition double_of_size :: "nat \<Rightarrow> double" where
  "double_of_size n = Finite (real n)"

subsection \<open>Assertions\<close>

text \<open>
  Modelled from the spec: the macro \<^verbatim>\<open>DMITIGR_ASSERT\<close> of \<^verbatim>\<open>assert.hpp\<close>, which is
  not among the sources. The spec makes a failed assertion a fatal internal-invariant
  violation that aborts instead of returning a recoverable error.
\<close>

definition DMITIGR_ASSERT :: "bool \<Rightarrow> error + unit" where
  "DMITIGR_ASSERT a = (if a then Inr () else Inl assertion_failure)"

subsection \<open>Average and variance\<close>

text \<open>
  The loop of \<^verbatim>\<open>avg\<close>, \<^verbatim>\<open>for (const double num : data) result += (num / n)\<close>, with
  \<open>n\<close> the converted size.
\<close>

fun avg_loop :: "double \<Rightarrow> double list \<Rightarrow> double \<Rightarrow> double" where
  "avg_loop n [] result = result"
| "avg_loop n (num # rest) result = avg_loop n rest (dadd result (ddiv num n))"

definition avg :: "double list \<Rightarrow> double" where
  "avg data =
     (let data_size = length data
      in avg_loop (double_of_size data_size) data (Finite 0))"

text \<open>The loop of \<^verbatim>\<open>variance\<close>: \<^verbatim>\<open>d = num - avg; result += (d / den) * d\<close>.\<close>

fun variance_loop :: "double \<Rightarrow> double \<Rightarrow> double list \<Rightarrow> double \<Rightarrow> double" where
  "variance_loop av den [] result = result"
| "variance_loop av den (num # rest) result =
     (let d = dsub num av
      in variance_loop av den rest (dadd result (dmul (ddiv d den) d)))"

definition variance :: "double list \<Rightarrow> double \<Rightarrow> bool \<Rightarrow> error + double" where
  "variance data av general =
     (let den = double_of_size (size_sub (length data) (if general then 0 else 1));
          result = variance_loop av den data (Finite 0)
      in case DMITIGR_ASSERT (dge result (Finite 0)) of
           Inl e \<Rightarrow> Inl e
         | Inr u \<Rightarrow> Inr result)"

text \<open>The overload \<^verbatim>\<open>variance(data, general)\<close>.\<close>

definition variance_of_data :: "double list \<Rightarrow> bool \<Rightarrow> error + double" where
  "variance_of_data data general = variance data (avg data) general"

section \<open>Properties of the alignment functions\<close>

subsection \<open>Powers of two\<close>

text \<open>
  A natural number that shares no bit with its predecessor is zero or a power of two:
  an even number halves to one with the same property, an odd one must be 1.
\<close>

lemma nat_and_pred_zero:
  fixes n :: nat
  assumes "n AND (n - 1) = 0" "n \<noteq> 0"
  shows "\<exists>k. n = 2 ^ k"
  using assms
proof (induction n rule: less_induct)
  case (less n)
  show ?case
  proof (cases "even n")
    case True
    then obtain m where m: "n = 2 * m" by (elim evenE)
    with less.prems have m0: "m \<noteq> 0" by simp
    have "n - 1 = 2 * (m - 1) + 1" using m m0 by simp
    then have "n AND (n - 1) = 2 * (m AND (m - 1))"
      using m by (simp add: and_nat_rec [of "2 * m"] )
    with less.prems have "m AND (m - 1) = 0" by simp
    moreover have "m < n" using m m0 by simp
    ultimately obtain k where "m = 2 ^ k" using less.IH m0 by blast
    then have "n = 2 ^ Suc k" using m by simp
    then show ?thesis by blast
  next
    case False
    then obtain m where m: "n = 2 * m + 1" by (elim oddE)
    then have "n AND (n - 1) = 2 * m"
      by (simp add: and_nat_rec [of "Suc (2 * m)" "2 * m"])
    with less.prems have "m = 0" by simp
    then have "n = 2 ^ 0" using m by simp
    then show ?thesis by blast
  qed
qed

lemma word_and_pred_zero:
  fixes n :: "'a::len word"
  assumes "is_power_of_two n" "n \<noteq> 0"
  shows "\<exists>k<LENGTH('a). n = 2 ^ k"
proof -
  have "unat (n AND (n - 1)) = 0" using assms(1) by (simp add: is_power_of_two_def)
  then have "unat n AND (unat n - 1) = 0"
    using assms(2) by (simp add: unsigned_and_eq unat_minus_one)
  moreover have "unat n \<noteq> 0" using assms(2) by (simp add: unat_eq_0)
  ultimately obtain k where k: "unat n = 2 ^ k" using nat_and_pred_zero by blast
  have "unat n < 2 ^ LENGTH('a)" by simp
  with k have "k < LENGTH('a)" by simp
  moreover have "n = 2 ^ k"
  proof -
    have "n = word_of_nat (unat n)" by simp
    also have "\<dots> = 2 ^ k" unfolding k by simp
    finally show ?thesis .
  qed
  ultimately show ?thesis by blast
qed

text \<open>Signed and unsigned readings of a word, and the signed value of \<open>2 ^ k\<close>.\<close>

lemma sint_eq_uint_small:
  fixes w :: "'a::len word"
  assumes "uint w < 2 ^ (LENGTH('a) - 1)"
  shows "sint w = uint w"
proof -
  have "- (2 ^ (LENGTH('a) - Suc 0)) \<le> uint w"
    by (rule order_trans [of _ 0]) simp_all
  then show ?thesis
    using assms by (simp add: sint_uint signed_take_bit_int_eq_self)
qed

lemma uint_eq_sint_nonneg:
  fixes w :: "'a::len word"
  assumes "0 \<le> sint w"
  shows "uint w = sint w"
proof -
  have "sint w < 2 ^ (LENGTH('a) - 1)" by (rule sint_lt)
  also have "(2::int) ^ (LENGTH('a) - 1) \<le> 2 ^ LENGTH('a)" by (rule power_increasing) simp_all
  finally show ?thesis using assms by (simp add: uint_sint take_bit_int_eq_self)
qed

lemma word_eq_exp_of_sint:
  fixes al :: "'a::len word"
  assumes "sint al = 2 ^ k"
  shows "al = 2 ^ k" and "k < LENGTH('a) - 1"
proof -
  have "al = word_of_int (sint al)" by simp
  then show "al = 2 ^ k" unfolding assms by simp
  have "sint al < 2 ^ (LENGTH('a) - 1)" by (rule sint_lt)
  then have "(2::int) ^ k < 2 ^ (LENGTH('a) - 1)" using assms by simp
  then show "k < LENGTH('a) - 1" by simp
qed

lemma sint_exp_small:
  assumes "k < LENGTH('a::len) - 1"
  shows "sint (2 ^ k :: 'a word) = 2 ^ k"
proof -
  have "sint (word_of_int (2 ^ k) :: 'a word) = signed_take_bit (LENGTH('a) - 1) (2 ^ k)"
    by (rule sint_sbintrunc')
  also have "\<dots> = 2 ^ k"
  proof (rule signed_take_bit_int_eq_self)
    show "- (2 ^ (LENGTH('a) - 1)) \<le> (2::int) ^ k" by (rule order_trans [of _ 0]) simp_all
    show "(2::int) ^ k < 2 ^ (LENGTH('a) - 1)" using assms by simp
  qed
  finally show ?thesis by simp
qed

lemma two_times_exp_pred_len:
  "2 * 2 ^ (LENGTH('a::len) - Suc 0) = (2 ^ LENGTH('a) :: 'b::comm_semiring_1)"
proof -
  have "Suc (LENGTH('a) - Suc 0) = LENGTH('a)" by simp
  then show ?thesis by (metis power_Suc)
qed

lemma sint_exp_top:
  "sint (2 ^ (LENGTH('a::len) - 1) :: 'a word) = - (2 ^ (LENGTH('a) - 1))"
proof -
  have "sint (word_of_int (2 ^ (LENGTH('a) - 1)) :: 'a word)
          = signed_take_bit (LENGTH('a) - 1) (2 ^ (LENGTH('a) - 1))"
    by (rule sint_sbintrunc')
  also have "\<dots> = - (2 ^ (LENGTH('a) - 1))"
    by (simp add: signed_take_bit_eq_take_bit_shift take_bit_eq_mod
        two_times_exp_pred_len [where 'a='a])
  finally show ?thesis by simp
qed

lemma is_power_of_two_exp: "is_power_of_two (2 ^ k :: 'a::len word)"
  unfolding is_power_of_two_def
  by (rule bit_eqI) (auto simp add: bit_simps simp flip: mask_eq_exp_minus_1)

lemma is_power_of_two_iff:
  fixes n :: "'a::len word"
  shows "is_power_of_two n \<longleftrightarrow> n = 0 \<or> (\<exists>k<LENGTH('a). n = 2 ^ k)"
proof
  assume "is_power_of_two n"
  then show "n = 0 \<or> (\<exists>k<LENGTH('a). n = 2 ^ k)"
    using word_and_pred_zero [of n] by blast
next
  assume "n = 0 \<or> (\<exists>k<LENGTH('a). n = 2 ^ k)"
  then show "is_power_of_two n"
    using is_power_of_two_exp by (auto simp add: is_power_of_two_def)
qed

lemma is_power_of_two_sint_iff:
  fixes n :: "'a::len word"
  shows "is_power_of_two n \<longleftrightarrow>
    sint n = 0 \<or> sint n = - (2 ^ (LENGTH('a) - 1)) \<or> (\<exists>k. sint n = 2 ^ k)"
proof
  assume "is_power_of_two n"
  then consider "n = 0" | k where "k < LENGTH('a)" "n = 2 ^ k"
    unfolding is_power_of_two_iff by blast
  then show "sint n = 0 \<or> sint n = - (2 ^ (LENGTH('a) - 1)) \<or> (\<exists>k. sint n = 2 ^ k)"
  proof cases
    case 1
    then show ?thesis by simp
  next
    case 2
    show ?thesis
    proof (cases "k = LENGTH('a) - 1")
      case True
      then show ?thesis using 2 sint_exp_top [where 'a='a] by simp
    next
      case False
      with 2 have "k < LENGTH('a) - 1" by simp
      then have "sint n = 2 ^ k" unfolding 2 by (rule sint_exp_small)
      then show ?thesis by blast
    qed
  qed
next
  assume h: "sint n = 0 \<or> sint n = - (2 ^ (LENGTH('a) - 1)) \<or> (\<exists>k. sint n = 2 ^ k)"
  have n: "n = word_of_int (sint n)" by simp
  from h consider "sint n = 0" | "sint n = - (2 ^ (LENGTH('a) - 1))" | k where "sint n = 2 ^ k"
    by blast
  then show "is_power_of_two n"
  proof cases
    case 1
    with n have "n = 0" by simp
    then show ?thesis by (simp add: is_power_of_two_def)
  next
    case 2
    have "n = - (2 ^ (LENGTH('a) - 1))" by (subst n, unfold 2) simp
    also have "\<dots> = - 1 * 2 ^ (LENGTH('a) - 1)" by simp
    finally have "n + n = - (2 * 2 ^ (LENGTH('a) - Suc 0))" by simp
    then have "n + n = 0" by (simp add: two_times_exp_pred_len [where 'a='a])
    then have "n = - n" by (simp add: eq_neg_iff_add_eq_0)
    then have "n = 2 ^ (LENGTH('a) - 1)" using \<open>n = - (2 ^ (LENGTH('a) - 1))\<close> by simp
    then show ?thesis using is_power_of_two_exp [where 'a='a] by metis
  next
    case 3
    then have "n = 2 ^ k" by (rule word_eq_exp_of_sint)
    then show ?thesis by (simp add: is_power_of_two_exp)
  qed
qed

subsection \<open>Rounding up to a multiple of a power of two\<close>

text \<open>
  Clearing the low \<open>k\<close> bits subtracts the remainder modulo \<open>2 ^ k\<close>; the low \<open>k\<close>
  bits of \<open>- v\<close> are the remainder of \<open>- v\<close>.
\<close>

lemma and_not_mask_decomp:
  fixes x :: "'a::len word"
  shows "(x AND NOT (mask k)) + take_bit k x = x"
proof -
  have "x AND NOT (mask k) = push_bit k (drop_bit k x)"
    by (rule bit_eqI) (auto simp add: bit_simps)
  then show ?thesis by (simp add: bits_ident)
qed

lemma uint_and_not_mask:
  fixes x :: "'a::len word"
  shows "uint (x AND NOT (mask k)) = uint x - uint x mod 2 ^ k"
proof -
  have "x AND NOT (mask k) = x - take_bit k x"
    using and_not_mask_decomp [of x k] by (simp add: algebra_simps)
  moreover have "uint (take_bit k x) \<le> uint x"
    by (simp add: unsigned_take_bit_eq take_bit_int_less_eq_self_iff)
  ultimately have "uint (x AND NOT (mask k)) = uint x - uint (take_bit k x)"
    by (simp add: uint_sub_lem)
  also have "uint (take_bit k x) = take_bit k (uint x)" by (rule unsigned_take_bit_eq)
  also have "take_bit k (uint x) = uint x mod 2 ^ k" by (rule take_bit_eq_mod)
  finally show ?thesis .
qed

lemma uint_neg_and_mask:
  fixes v :: "'a::len word"
  assumes "k \<le> LENGTH('a)"
  shows "uint ((- v) AND mask k) = (- uint v) mod 2 ^ k"
proof -
  have "uint ((- v) AND mask k) = uint (take_bit k (- v))"
    by (simp add: take_bit_eq_mask)
  also have "\<dots> = take_bit k (uint (- v))" by (rule unsigned_take_bit_eq)
  also have "\<dots> = uint (- v) mod 2 ^ k" by (rule take_bit_eq_mod)
  also have "\<dots> = ((- uint v) mod 2 ^ LENGTH('a)) mod 2 ^ k"
    by (simp only: uint_word_ariths)
  also have "\<dots> = (- uint v) mod 2 ^ k"
    using assms by (simp add: mod_exp_eq min_def)
  finally show ?thesis .
qed

lemma aligned_padding_relation:
  fixes v al :: "'a::len word"
  assumes v: "0 \<le>s v" and al: "sint al = 2 ^ k"
    and no_overflow: "sint v + (sint al - 1) < 2 ^ (LENGTH('a) - 1)"
  shows "\<exists>a p. aligned v al = Inr a \<and> padding v al = Inr p
           \<and> sint a smod sint al = 0
           \<and> sint a - sint v = sint p
           \<and> 0 \<le> sint p \<and> sint p < sint al"
proof -
  let ?m = "(2::int) ^ k"
  let ?V = "uint v"
  have alw: "al = 2 ^ k" and k: "k < LENGTH('a) - 1"
    using word_eq_exp_of_sint [OF al] by simp_all
  have v0: "0 \<le> sint v" using v by (simp add: word_sle_eq)
  have V: "?V = sint v" using v0 by (rule uint_eq_sint_nonneg)
  have pow: "is_power_of_two al" unfolding alw by (rule is_power_of_two_exp)
  have m_le: "?m \<le> 2 ^ (LENGTH('a) - 1)" using k by (simp add: power_increasing)
  have half: "(2::int) ^ (LENGTH('a) - 1) \<le> 2 ^ LENGTH('a)" by (rule power_increasing) simp_all
  have lt: "?V + (?m - 1) < 2 ^ (LENGTH('a) - 1)" using no_overflow V al by simp
  define p where "p = (0 - v) AND (al - 1)"
  define a where "a = (v + (al - 1)) AND - al"
  have pad: "padding v al = Inr p" using v pow by (simp add: padding_def p_def)
  have ali: "aligned v al = Inr a" using v pow by (simp add: aligned_def a_def)
  have up: "uint p = (- ?V) mod ?m"
    unfolding p_def alw using k by (simp add: uint_neg_and_mask flip: mask_eq_exp_minus_1)
  have up_bounds: "0 \<le> uint p" "uint p < ?m" unfolding up by simp_all
  have "uint p < 2 ^ (LENGTH('a) - 1)" using up_bounds(2) m_le by (rule less_le_trans)
  then have sp: "sint p = uint p" by (rule sint_eq_uint_small)
  have ux: "uint (v + (al - 1)) = ?V + (?m - 1)"
  proof -
    have "uint (al - 1) = uint (mask k :: 'a word)"
      unfolding alw by (simp only: mask_eq_exp_minus_1)
    also have "\<dots> = mask k"
      using k by (auto simp add: uint_mask_eq min_def)
    also have "(mask k :: int) = ?m - 1" by (rule mask_eq_exp_minus_1)
    finally have "uint (al - 1) = ?m - 1" .
    moreover have "?V + (?m - 1) < 2 ^ LENGTH('a)"
      using lt half by (rule less_le_trans)
    ultimately show ?thesis by (simp add: uint_add_lem [THEN iffD1])
  qed
  have ua: "uint a = (?V + (?m - 1)) - (?V + (?m - 1)) mod ?m"
    unfolding a_def using ux by (simp add: alw minus_exp_eq_not_mask uint_and_not_mask)
  have "0 \<le> (?V + (?m - 1)) mod ?m" by (rule pos_mod_sign) simp
  then have ua_le: "uint a \<le> ?V + (?m - 1)" unfolding ua by linarith
  from ua_le lt have "uint a < 2 ^ (LENGTH('a) - 1)" by (rule le_less_trans)
  then have sa: "sint a = uint a" by (rule sint_eq_uint_small)
  have dvd: "?m dvd uint a" unfolding ua by (simp add: dvd_minus_mod)
  have c1: "sint a smod sint al = 0"
    using dvd by (simp add: sa al smod_int_alt_def abs_mult)
  have "(?V + (?m - 1)) mod ?m = (?V - 1) mod ?m"
    by (metis add.commute add_diff_eq diff_add_eq mod_add_self1)
  then have "uint a - ?V = ?m - 1 - (?V - 1) mod ?m" unfolding ua by simp
  also have "\<dots> = (- ?V) mod ?m" by (simp add: minus_mod_int_eq)
  finally have c2: "sint a - sint v = sint p" using sa sp V up by simp
  show ?thesis using ali pad c1 c2 up_bounds sp al by simp
qed

subsection \<open>Claims about the alignment functions\<close>

text \<open>
  Claim C6. For a strictly positive \<open>n\<close>, \<^verbatim>\<open>is_power_of_two(n)\<close> is true exactly when
  the value of \<open>n\<close> is \<open>2 ^ k\<close> for some \<open>k\<close>: true for every power of two, false for
  every other strictly positive number. \<^verbatim>\<open>is_power_of_two(0)\<close> is true as well.
\<close>

theorem is_power_of_two_positive:
  fixes n :: "'a::len word"
  shows "(0 < sint n \<longrightarrow> is_power_of_two n = (\<exists>k. sint n = 2 ^ k))
       \<and> is_power_of_two (0 :: 'a word)"
proof -
  have "is_power_of_two n = (\<exists>k. sint n = 2 ^ k)" if "0 < sint n"
    using that unfolding is_power_of_two_sint_iff [of n]
    by (smt (verit) zero_less_power)
  moreover have "is_power_of_two (0 :: 'a word)" by (simp add: is_power_of_two_def)
  ultimately show ?thesis by blast
qed

theorem is_power_of_two_positive_witness:
  "0 < sint (8 :: 32 word) \<and> (\<exists>k. sint (8 :: 32 word) = 2 ^ k) \<and> is_power_of_two (8 :: 32 word)
   \<and> 0 < sint (6 :: 32 word) \<and> \<not> is_power_of_two (6 :: 32 word)"
proof -
  have p8: "0 < sint (8 :: 32 word)" by simp
  have e8: "\<exists>k. sint (8 :: 32 word) = 2 ^ k" by (rule exI [of _ 3]) simp
  have i8: "is_power_of_two (8 :: 32 word)"
    using is_power_of_two_positive [of "8 :: 32 word"] p8 e8 by blast
  have p6: "0 < sint (6 :: 32 word)" by simp
  have n6: "\<not> is_power_of_two (6 :: 32 word)" by (simp add: is_power_of_two_def)
  show ?thesis using p8 e8 i8 p6 n6 by blast
qed

text \<open>
  The promoted test is the test of \<^verbatim>\<open>int\<close> on the sign-extended value, which keeps its
  signed reading. A negative value other than the minimum of its type is no power of
  two for the bit test.
\<close>

lemma is_power_of_two_promoted_eq:
  "is_power_of_two_promoted number = is_power_of_two (scast number :: 32 word)"
  by (simp add: is_power_of_two_promoted_def is_power_of_two_def Let_def)

lemma sint_promoted:
  fixes n :: "'a::len word"
  assumes "LENGTH('a) < 32"
  shows "sint (scast n :: 32 word) = sint n"
proof -
  have "is_up (scast :: 'a word \<Rightarrow> 32 word)"
    using assms by (simp add: is_up)
  then show ?thesis by (rule sint_up_scast)
qed

lemma negative_not_power_of_two:
  fixes n :: "'a::len word"
  assumes "sint n < 0" "sint n \<noteq> - (2 ^ (LENGTH('a) - 1))"
  shows "\<not> is_power_of_two n"
  using assms unfolding is_power_of_two_sint_iff [of n]
  by (smt (verit) zero_less_power)

text \<open>
  Claim C10, as amended. For every strictly negative \<open>n\<close> other than the minimum value
  of the type, \<^verbatim>\<open>is_power_of_two(n)\<close> is false. At the minimum value of a type narrower
  than \<^verbatim>\<open>int\<close> the operands are promoted, \<open>n - 1\<close> does not wrap around, and the result
  is false as well. Nothing is said of the minimum value of \<^verbatim>\<open>int\<close> and of the wider
  types, where \<open>n - 1\<close> overflows.
\<close>

theorem is_power_of_two_negative:
  fixes n :: "'a::len word"
  shows "(32 \<le> LENGTH('a) \<and> sint n < 0 \<and> sint n \<noteq> - (2 ^ (LENGTH('a) - 1))
            \<longrightarrow> \<not> is_power_of_two n)
       \<and> (LENGTH('a) < 32 \<and> sint n < 0 \<longrightarrow> \<not> is_power_of_two_promoted n)"
proof -
  have "\<not> is_power_of_two_promoted n" if w: "LENGTH('a) < 32" and neg: "sint n < 0"
  proof -
    let ?m = "scast n :: 32 word"
    have s: "sint ?m = sint n" using w by (rule sint_promoted)
    have "- (2 ^ (LENGTH('a) - 1)) \<le> sint n" by (rule sint_ge)
    moreover have "(2::int) ^ (LENGTH('a) - 1) < 2 ^ (LENGTH(32) - 1)"
      using w by (intro power_strict_increasing) simp_all
    ultimately have "sint ?m \<noteq> - (2 ^ (LENGTH(32) - 1))" unfolding s by linarith
    moreover have "sint ?m < 0" using neg s by simp
    ultimately have "\<not> is_power_of_two ?m" by (intro negative_not_power_of_two)
    then show ?thesis by (simp add: is_power_of_two_promoted_eq)
  qed
  then show ?thesis using negative_not_power_of_two [of n] by blast
qed

theorem is_power_of_two_negative_witness:
  "32 \<le> LENGTH(32) \<and> sint (- 4 :: 32 word) < 0
   \<and> sint (- 4 :: 32 word) \<noteq> - (2 ^ (LENGTH(32) - 1))
   \<and> \<not> is_power_of_two (- 4 :: 32 word)
   \<and> LENGTH(8) < 32 \<and> sint (- 4 :: 8 word) < 0
   \<and> \<not> is_power_of_two_promoted (- 4 :: 8 word)"
proof -
  have a: "32 \<le> LENGTH(32) \<and> sint (- 4 :: 32 word) < 0
      \<and> sint (- 4 :: 32 word) \<noteq> - (2 ^ (LENGTH(32) - 1))"
    by simp
  have b: "LENGTH(8) < 32 \<and> sint (- 4 :: 8 word) < 0" by simp
  show ?thesis
    using is_power_of_two_negative [of "- 4 :: 32 word"]
      is_power_of_two_negative [of "- 4 :: 8 word"] a b
    by blast
qed

text \<open>
  The claim as first stated has \<^verbatim>\<open>is_power_of_two\<close> return true at the minimum value of
  every fixed-width type. At \<open>- 128\<close> of \<^verbatim>\<open>int8_t\<close> and at \<open>- 32768\<close> of \<^verbatim>\<open>int16_t\<close> it
  returns false: \<^verbatim>\<open>-128 & -129\<close> is \<open>- 256\<close> in \<^verbatim>\<open>int\<close>.
\<close>

theorem is_power_of_two_minimum_counterexample:
  "sint (- 128 :: 8 word) = - (2 ^ (LENGTH(8) - 1))
   \<and> \<not> is_power_of_two_promoted (- 128 :: 8 word)
   \<and> sint (- 32768 :: 16 word) = - (2 ^ (LENGTH(16) - 1))
   \<and> \<not> is_power_of_two_promoted (- 32768 :: 16 word)"
  by (simp add: is_power_of_two_promoted_def)

text \<open>
  The guards of \<^verbatim>\<open>padding\<close> and \<^verbatim>\<open>aligned\<close>. Either call throws
  \<^verbatim>\<open>std::invalid_argument\<close> exactly when \<open>val\<close> is negative or
  \<^verbatim>\<open>is_power_of_two(alignment)\<close> is false, that is when the alignment is neither zero,
  nor the minimum value of the type, nor a positive power of two. Each function has one
  message for a negative value (which is tested first) and another one for the
  alignment; in every other case the call returns a value.
\<close>

lemma alignment_guards:
  fixes v al :: "'a::len word"
  shows "((\<exists>m. padding v al = Inl (invalid_argument m)) \<longleftrightarrow>
            sint v < 0 \<or> \<not> (sint al = 0 \<or> sint al = - (2 ^ (LENGTH('a) - 1)) \<or> (\<exists>k. sint al = 2 ^ k)))
       \<and> (padding v al = Inl (invalid_argument ''cannot calculate padding for a negative value'') \<longleftrightarrow>
            sint v < 0)
       \<and> (padding v al = Inl (invalid_argument ''cannot calculate padding with alignment that is not power of 2'') \<longleftrightarrow>
            0 \<le> sint v \<and> \<not> is_power_of_two al)
       \<and> ((\<exists>r. padding v al = Inr r) \<longleftrightarrow> 0 \<le> sint v \<and> is_power_of_two al)
       \<and> ((\<exists>m. aligned v al = Inl (invalid_argument m)) \<longleftrightarrow>
            sint v < 0 \<or> \<not> (sint al = 0 \<or> sint al = - (2 ^ (LENGTH('a) - 1)) \<or> (\<exists>k. sint al = 2 ^ k)))
       \<and> (aligned v al = Inl (invalid_argument ''cannot align a negative value'') \<longleftrightarrow>
            sint v < 0)
       \<and> (aligned v al = Inl (invalid_argument ''cannot align a value with alignment that is not power of 2'') \<longleftrightarrow>
            0 \<le> sint v \<and> \<not> is_power_of_two al)
       \<and> ((\<exists>r. aligned v al = Inr r) \<longleftrightarrow> 0 \<le> sint v \<and> is_power_of_two al)"
  unfolding is_power_of_two_sint_iff [of al, symmetric]
  by (simp add: padding_def aligned_def word_sle_eq not_le)

text \<open>
  Claim C2. \<^verbatim>\<open>padding\<close> and \<^verbatim>\<open>aligned\<close> are to fail with an invalid argument exactly
  when \<open>val < 0\<close> or the alignment is not a power of two, as their messages say. Zero
  is not a power of two, and neither is the minimum value of \<^verbatim>\<open>int\<close>: the bit test
  of \<^verbatim>\<open>is_power_of_two\<close> lets both pass, and the calls return \<^verbatim>\<open>padding(5, 0) == -5\<close>
  and \<^verbatim>\<open>aligned(5, 0) == 0\<close> instead of failing.
\<close>

theorem alignment_zero_accepted:
  "sint (0 :: 32 word) = 0
   \<and> padding (5 :: 32 word) 0 = Inr (- 5)
   \<and> aligned (5 :: 32 word) 0 = Inr 0
   \<and> sint (- 2147483648 :: 32 word) = - 2147483648
   \<and> padding (5 :: 32 word) (- 2147483648) = Inr 2147483643
   \<and> aligned (5 :: 32 word) (- 2147483648) = Inr (- 2147483648)"
  by (simp add: padding_def aligned_def is_power_of_two_def word_sle_eq)

text \<open>
  Claim C3. For \<open>val \<ge> 0\<close> and an alignment whose value is \<open>2 ^ k\<close>, when
  \<open>val + (alignment - 1)\<close> does not overflow: both calls return,
  \<^verbatim>\<open>aligned(val, alignment) % alignment == 0\<close> (the remainder of C++ truncates, as
  \<open>smod\<close> does), \<^verbatim>\<open>aligned(val, alignment) - val == padding(val, alignment)\<close> and
  \<^verbatim>\<open>0 <= padding(val, alignment) < alignment\<close>, all read as signed integers. Moreover
  \<^verbatim>\<open>padding(10, 8) == 6\<close>, \<^verbatim>\<open>aligned(10, 8) == 16\<close> and \<^verbatim>\<open>padding(16, 8) == 0\<close>.
\<close>

theorem aligned_padding_spec:
  fixes v al :: "'a::len word"
  shows "(0 \<le> sint v \<and> sint al = 2 ^ k \<and> sint v + (sint al - 1) < 2 ^ (LENGTH('a) - 1) \<longrightarrow>
          (\<exists>a p. aligned v al = Inr a \<and> padding v al = Inr p
             \<and> sint a smod sint al = 0
             \<and> sint a - sint v = sint p
             \<and> 0 \<le> sint p \<and> sint p < sint al))
       \<and> padding (10 :: 32 word) 8 = Inr 6
       \<and> aligned (10 :: 32 word) 8 = Inr 16
       \<and> padding (16 :: 32 word) 8 = Inr 0"
proof -
  have "\<exists>a p. aligned v al = Inr a \<and> padding v al = Inr p
             \<and> sint a smod sint al = 0
             \<and> sint a - sint v = sint p
             \<and> 0 \<le> sint p \<and> sint p < sint al"
    if "0 \<le> sint v" "sint al = 2 ^ k" "sint v + (sint al - 1) < 2 ^ (LENGTH('a) - 1)"
    using that by (intro aligned_padding_relation) (simp_all add: word_sle_eq)
  moreover have "padding (10 :: 32 word) 8 = Inr 6" "aligned (10 :: 32 word) 8 = Inr 16"
      "padding (16 :: 32 word) 8 = Inr 0"
    by (simp_all add: padding_def aligned_def is_power_of_two_def word_sle_eq)
  ultimately show ?thesis by blast
qed

theorem aligned_padding_spec_witness:
  "0 \<le> sint (13 :: 32 word) \<and> sint (4 :: 32 word) = 2 ^ 2
   \<and> sint (13 :: 32 word) + (sint (4 :: 32 word) - 1) < 2 ^ (LENGTH(32) - 1)
   \<and> (\<exists>a p. aligned (13 :: 32 word) 4 = Inr a \<and> padding (13 :: 32 word) 4 = Inr p
         \<and> sint a smod sint (4 :: 32 word) = 0
         \<and> sint a - sint (13 :: 32 word) = sint p
         \<and> 0 \<le> sint p \<and> sint p < sint (4 :: 32 word))"
proof -
  have h: "0 \<le> sint (13 :: 32 word) \<and> sint (4 :: 32 word) = 2 ^ 2
     \<and> sint (13 :: 32 word) + (sint (4 :: 32 word) - 1) < 2 ^ (LENGTH(32) - 1)"
    by simp
  with aligned_padding_spec [of "13 :: 32 word" "4 :: 32 word" 2] show ?thesis
    by blast
qed

section \<open>Properties of the intervals\<close>

text \<open>
  Claim C1. \<^verbatim>\<open>has(v)\<close> compares as the type of the interval says: \<open>min \<le> v \<le> max\<close>
  for a closed interval, \<open>min < v < max\<close> for an open one, \<open>min < v \<le> max\<close> for
  \<^verbatim>\<open>lopen\<close> and \<open>min \<le> v < max\<close> for \<^verbatim>\<open>ropen\<close>; it returns for every interval and every
  value. The examples of the claim build their intervals with the factories:
  \<^verbatim>\<open>make_closed(1, 5)\<close>, \<^verbatim>\<open>make_open(1, 5)\<close>, \<^verbatim>\<open>make_lopen(1, 5)\<close> and
  \<^verbatim>\<open>make_ropen(1, 5)\<close> are ill-formed, so there is no interval to ask. The intervals
  that the constructor builds from the same type and bounds contain or exclude 1, 3
  and 5 as the examples say.
\<close>

theorem has_spec:
  fixes a b v :: "'a::linorder"
  shows "has \<lparr>type' = Closed, min' = a, max' = b\<rparr> v = (a \<le> v \<and> v \<le> b)
       \<and> has \<lparr>type' = Open, min' = a, max' = b\<rparr> v = (a < v \<and> v < b)
       \<and> has \<lparr>type' = Lopen, min' = a, max' = b\<rparr> v = (a < v \<and> v \<le> b)
       \<and> has \<lparr>type' = Ropen, min' = a, max' = b\<rparr> v = (a \<le> v \<and> v < b)
       \<and> make_closed (1::int) 5 = ill_formed
       \<and> make_open (1::int) 5 = ill_formed
       \<and> make_lopen (1::int) 5 = ill_formed
       \<and> make_ropen (1::int) 5 = ill_formed
       \<and> (\<exists>i. Interval_typed Closed (1::int) 5 = Inr i \<and> has i 1 \<and> has i 5)
       \<and> (\<exists>i. Interval_typed Open (1::int) 5 = Inr i \<and> \<not> has i 1 \<and> \<not> has i 5 \<and> has i 3)
       \<and> (\<exists>i. Interval_typed Lopen (1::int) 5 = Inr i \<and> \<not> has i 1 \<and> has i 5)
       \<and> (\<exists>i. Interval_typed Ropen (1::int) 5 = Inr i \<and> has i 1 \<and> \<not> has i 5)"
  by (simp add: has_def make_closed_def make_open_def make_lopen_def make_ropen_def
      copy_list_initialization_def Interval_typed_explicit_def Interval_typed_def)

text \<open>
  Claim C4. \<^verbatim>\<open>Interval(min, max)\<close> throws \<^verbatim>\<open>std::invalid_argument\<close> exactly when
  \<open>min > max\<close> and builds the closed interval otherwise. \<^verbatim>\<open>Interval(type, min, max)\<close>
  throws exactly when the type is closed and \<open>min > max\<close>, or the type is not closed and
  \<open>min \<ge> max\<close>, and builds the interval of that type otherwise; \<^verbatim>\<open>Interval(5, 1)\<close>
  fails. The four factories are to fail likewise, and \<^verbatim>\<open>make_open(3, 3)\<close> with them:
  they are ill-formed for every pair of bounds, so no call of a factory throws anything.
  The constructor that \<^verbatim>\<open>make_open(3, 3)\<close> names does throw for the open type and the
  bounds 3 and 3.
\<close>

theorem Interval_construction_failures:
  fixes mn mx :: "'a::linorder"
  shows "((\<exists>m. Interval_min_max mn mx = Inl (invalid_argument m)) \<longleftrightarrow> mn > mx)
       \<and> (Interval_min_max mn mx = Inr i \<longleftrightarrow>
            mn \<le> mx \<and> i = \<lparr>type' = Closed, min' = mn, max' = mx\<rparr>)
       \<and> ((\<exists>m. Interval_typed ty mn mx = Inl (invalid_argument m)) \<longleftrightarrow>
            (ty = Closed \<and> mn > mx) \<or> (ty \<noteq> Closed \<and> mn \<ge> mx))
       \<and> (Interval_typed ty mn mx = Inr j \<longleftrightarrow>
            ((ty = Closed \<and> mn \<le> mx) \<or> (ty \<noteq> Closed \<and> mn < mx))
            \<and> j = \<lparr>type' = ty, min' = mn, max' = mx\<rparr>)
       \<and> make_closed mn mx = ill_formed
       \<and> make_open mn mx = ill_formed
       \<and> make_lopen mn mx = ill_formed
       \<and> make_ropen mn mx = ill_formed
       \<and> Interval_min_max (5::int) 1 = Inl (invalid_argument ''interval is invalid (min > max)'')
       \<and> make_open (3::int) 3 = ill_formed
       \<and> Interval_typed Open (3::int) 3
            = Inl (invalid_argument ''interval is invalid (min > max or min >= max)'')"
  by (auto simp add: Interval_min_max_def Interval_typed_def make_closed_def make_open_def
      make_lopen_def make_ropen_def copy_list_initialization_def Interval_typed_explicit_def)

text \<open>
  Claim C5. On an interval that a constructor has built from \<open>min\<close> and \<open>max\<close>,
  \<^verbatim>\<open>release()\<close> returns the pair \<open>(min, max)\<close> and leaves the instance equal to the
  default-constructed interval: closed, with both bounds \<^verbatim>\<open>T{}\<close>. On the closed interval
  from 2 to 9 it returns \<open>(2, 9)\<close>.
\<close>

theorem release_spec:
  fixes mn mx T_init :: "'a::linorder"
  shows "(Interval_typed ty mn mx = Inr i \<or> Interval_min_max mn mx = Inr i \<longrightarrow>
           fst (release T_init i) = (mn, mx)
         \<and> snd (release T_init i) = Interval_default T_init
         \<and> type' (snd (release T_init i)) = Closed
         \<and> min' (snd (release T_init i)) = T_init
         \<and> max' (snd (release T_init i)) = T_init)
       \<and> (\<exists>i. Interval_min_max (2::int) 9 = Inr i \<and> release 0 i = ((2, 9), Interval_default 0))"
  by (auto simp add: release_def Interval_default_def Interval_typed_def Interval_min_max_def
      Let_def split: if_splits)

theorem release_spec_witness:
  "Interval_typed Ropen (2::int) 9 = Inr \<lparr>type' = Ropen, min' = 2, max' = 9\<rparr>
   \<and> fst (release 0 \<lparr>type' = Ropen, min' = 2::int, max' = 9\<rparr>) = (2, 9)
   \<and> snd (release 0 \<lparr>type' = Ropen, min' = 2::int, max' = 9\<rparr>) = \<lparr>type' = Closed, min' = 0, max' = 0\<rparr>"
proof -
  have h: "Interval_typed Ropen (2::int) 9 = Inr \<lparr>type' = Ropen, min' = 2, max' = 9\<rparr>"
    by (simp add: Interval_typed_def)
  then show ?thesis
    using release_spec [of Ropen "2::int" 9 "\<lparr>type' = Ropen, min' = 2, max' = 9\<rparr>" 0]
    by (simp add: Interval_default_def)
qed

section \<open>Properties of the statistic functions\<close>

subsection \<open>The denominator of \<^verbatim>\<open>variance\<close>\<close>

text \<open>
  When the subtraction \<^verbatim>\<open>data.size() - !general\<close> does not wrap around, the denominator
  is positive under the size preconditions of \<^verbatim>\<open>variance\<close>.
\<close>

lemma size_sub_0: "n < 2 ^ 64 \<Longrightarrow> size_sub n 0 = n"
  by (simp add: size_sub_def)

lemma size_sub_1:
  assumes "0 < n" "n < 2 ^ 64"
  shows "size_sub n (Suc 0) = n - 1"
proof -
  have "n + 2 ^ 64 - Suc 0 = (n - 1) + 2 ^ 64" using assms(1) by simp
  then have "size_sub n (Suc 0) = ((n - 1) + 2 ^ 64) mod 2 ^ 64" by (simp only: size_sub_def)
  also have "\<dots> = (n - 1) mod 2 ^ 64" by (rule mod_add_self2)
  also have "\<dots> = n - 1" using assms(2) by (intro mod_less) simp
  finally show ?thesis .
qed

lemma variance_den_pos:
  assumes "data \<noteq> []" "general \<or> 2 \<le> length data" "length data < 2 ^ 64"
  shows "0 < size_sub (length data) (if general then 0 else 1)"
proof (cases general)
  case True
  then show ?thesis using assms(1,3) by (simp add: size_sub_0)
next
  case False
  with assms(2) have l: "2 \<le> length data" by simp
  then have "length data \<noteq> 0" by linarith
  then have "0 < length data" by (rule neq0_conv [THEN iffD1])
  then have "size_sub (length data) (Suc 0) = length data - 1"
    using assms(3) by (rule size_sub_1)
  then show ?thesis using False l by simp
qed

subsection \<open>The assertion of \<^verbatim>\<open>variance\<close>\<close>

text \<open>
  With a positive denominator every term \<open>(d / den) * d\<close> is a non-negative number or
  \<open>+\<infinity>\<close>, unless \<open>d\<close> is a NaN; a NaN, once added, stays. So, in the arithmetic of the
  model, the assertion \<^verbatim>\<open>result >= 0\<close> holds exactly when no difference \<open>num - avg\<close> is
  a NaN.
\<close>

lemma variance_term_nonneg:
  assumes "0 < n" "d \<noteq> NaN"
  shows "dge (dmul (ddiv d (Finite n)) d) (Finite 0)"
  using assms by (cases d) (simp_all add: zero_le_mult_iff zero_le_divide_iff)

lemma dadd_nonneg:
  assumes "dge x (Finite 0)" "dge y (Finite 0)"
  shows "dge (dadd x y) (Finite 0)"
  using assms by (cases x; cases y) simp_all

lemma dadd_NaN_right: "dadd x NaN = NaN"
  by (cases x) simp_all

lemma variance_loop_NaN: "variance_loop av den data NaN = NaN"
  by (induction data) (simp_all add: Let_def)

lemma variance_loop_nonneg:
  assumes "0 < n" "dge r (Finite 0)" "\<forall>num\<in>set data. dsub num av \<noteq> NaN"
  shows "dge (variance_loop av (Finite n) data r) (Finite 0)"
  using assms(2,3)
proof (induction data arbitrary: r)
  case Nil
  then show ?case by simp
next
  case (Cons num rest)
  from Cons.prems(2) have d: "dsub num av \<noteq> NaN" by simp
  have "dge (dadd r (dmul (ddiv (dsub num av) (Finite n)) (dsub num av))) (Finite 0)"
    using Cons.prems(1) variance_term_nonneg [OF assms(1) d] by (rule dadd_nonneg)
  moreover have "\<forall>x\<in>set rest. dsub x av \<noteq> NaN" using Cons.prems(2) by simp
  ultimately show ?case by (simp add: Let_def Cons.IH)
qed

lemma variance_loop_is_NaN:
  assumes "\<exists>num\<in>set data. dsub num av = NaN"
  shows "variance_loop av den data r = NaN"
  using assms
proof (induction data arbitrary: r)
  case Nil
  then show ?case by simp
next
  case (Cons num rest)
  show ?case
  proof (cases "dsub num av = NaN")
    case True
    then show ?thesis by (simp add: Let_def dadd_NaN_right variance_loop_NaN)
  next
    case False
    with Cons.prems have "\<exists>x\<in>set rest. dsub x av = NaN" by simp
    then show ?thesis by (simp add: Let_def Cons.IH)
  qed
qed

lemma variance_assertion_iff:
  assumes "data \<noteq> []" and "general \<or> 2 \<le> length data" and "length data < 2 ^ 64"
  shows "((\<exists>result. variance data av general = Inr result \<and> dge result (Finite 0))
            \<longleftrightarrow> (\<forall>num\<in>set data. dsub num av \<noteq> NaN))
       \<and> (variance data av general = Inl assertion_failure
            \<longleftrightarrow> (\<exists>num\<in>set data. dsub num av = NaN))"
proof -
  let ?n = "size_sub (length data) (if general then 0 else 1)"
  let ?result = "variance_loop av (Finite (real ?n)) data (Finite 0)"
  have n: "0 < real ?n" using variance_den_pos [OF assms] by simp
  have v: "variance data av general = (if dge ?result (Finite 0) then Inr ?result else Inl assertion_failure)"
    by (simp add: variance_def double_of_size_def DMITIGR_ASSERT_def Let_def)
  have ok: "dge ?result (Finite 0)" if "\<forall>num\<in>set data. dsub num av \<noteq> NaN"
    using n _ that by (rule variance_loop_nonneg) simp
  have bad: "\<not> dge ?result (Finite 0)" if "\<exists>num\<in>set data. dsub num av = NaN"
    using variance_loop_is_NaN [OF that] by simp
  have 1: "(\<exists>result. variance data av general = Inr result \<and> dge result (Finite 0))
            \<longleftrightarrow> (\<forall>num\<in>set data. dsub num av \<noteq> NaN)"
    using ok bad unfolding v by (cases "dge ?result (Finite 0)") auto
  have 2: "variance data av general = Inl assertion_failure
            \<longleftrightarrow> (\<exists>num\<in>set data. dsub num av = NaN)"
    using ok bad unfolding v by (cases "dge ?result (Finite 0)") auto
  show ?thesis using 1 2 by blast
qed

subsection \<open>Claims about the statistic functions\<close>

text \<open>
  Claim C8. Under the size preconditions (non-empty data, at least two elements when
  \<^verbatim>\<open>general\<close> is false) the result of \<^verbatim>\<open>variance\<close> is to be non-negative, so that the
  assertion \<^verbatim>\<open>DMITIGR_ASSERT(result >= 0)\<close> never fails. With a NaN for \<^verbatim>\<open>avg\<close>, or
  with the single element \<open>+\<infinity>\<close>, whose average is \<open>+\<infinity>\<close> too, the difference
  \<open>num - avg\<close> is a NaN, the result is a NaN, and the code fails its own assertion. Only
  the rules of the special values take part in these two runs.
\<close>

theorem variance_assertion_fails:
  "[Finite 1] \<noteq> [] \<and> variance [Finite 1] NaN True = Inl assertion_failure
   \<and> avg [PInf] = PInf \<and> variance_of_data [PInf] True = Inl assertion_failure"
  by (simp add: variance_of_data_def avg_def variance_def double_of_size_def size_sub_def
      DMITIGR_ASSERT_def dsub_def)



end
